theory Spec2Isabelle
  imports Complex_Main "HOL-Library.AList" "HOL-Library.Multiset"
begin

section \<open>Data model\<close>

text \<open>
  The ledger of \<^verbatim>\<open>app.py\<close>: two tables, \<^verbatim>\<open>expenses\<close> and \<^verbatim>\<open>balances\<close>.
  A calendar date is its proleptic Gregorian ordinal (\<^verbatim>\<open>date.toordinal()\<close>), so that
  \<^verbatim>\<open>(today - d).days\<close> is integer subtraction and \<^verbatim>\<open>today - timedelta(days=n)\<close> is
  \<open>today - n\<close>. A Python \<^verbatim>\<open>str\<close> is the list of its code points. The \<^verbatim>\<open>Float\<close>
  columns and Python floats are read as real numbers: the arithmetic of the ledger is
  modelled exactly, rounding is not. The clock \<^verbatim>\<open>date.today()\<close> is the parameter
  \<open>today\<close> of every operation, read once per request.
\<close>

type_synonym pystr = "nat list"

definition DAILY_LIMIT :: int where
  "DAILY_LIMIT = 2000"

record Expense =
  expense_id :: int
  expense_user_id :: int
  expense_amount :: real
  expense_date :: int
  expense_category :: "pystr option"

record Balance =
  balance_id :: int
  balance_user_id :: int
  balance_date :: int
  balance_balance :: real

text \<open>
  The store holds the rows of both tables in insertion order, and the two primary-key
  sequences.
\<close>

record store =
  expenses :: "Expense list"
  balances :: "Balance list"
  expense_seq :: int
  balance_seq :: int

section \<open>Session operations\<close>

text \<open>\<^verbatim>\<open>session.add(Balance(user_id, date, balance)); session.commit()\<close>\<close>

definition add_Balance :: "store \<Rightarrow> int \<Rightarrow> int \<Rightarrow> real \<Rightarrow> store" where
  "add_Balance s user_id d b =
     s\<lparr>balances := balances s @
          [\<lparr>balance_id = balance_seq s, balance_user_id = user_id,
            balance_date = d, balance_balance = b\<rparr>],
       balance_seq := balance_seq s + 1\<rparr>"

text \<open>\<^verbatim>\<open>session.add(Expense(user_id, amount, date, category))\<close>, flushed by the next statement.\<close>

definition add_Expense :: "store \<Rightarrow> int \<Rightarrow> real \<Rightarrow> int \<Rightarrow> pystr option \<Rightarrow> store" where
  "add_Expense s user_id amount d category =
     s\<lparr>expenses := expenses s @
          [\<lparr>expense_id = expense_seq s, expense_user_id = user_id, expense_amount = amount,
            expense_date = d, expense_category = category\<rparr>],
       expense_seq := expense_seq s + 1\<rparr>"

text \<open>\<^verbatim>\<open>result.scalars().first()\<close>: the first row of a result, or \<^verbatim>\<open>None\<close>.\<close>

fun first :: "'a list \<Rightarrow> 'a option" where
  "first [] = None"
| "first (x # xs) = Some x"

text \<open>\<^verbatim>\<open>select(Balance).filter_by(user_id=user_id, date=today)\<close>\<close>

definition balances_on :: "store \<Rightarrow> int \<Rightarrow> int \<Rightarrow> Balance list" where
  "balances_on s user_id today =
     filter (\<lambda>b. balance_user_id b = user_id \<and> balance_date b = today) (balances s)"

text \<open>
  \<^verbatim>\<open>select(Balance).filter(Balance.user_id == user_id).order_by(Balance.date.desc()).limit(1)\<close>:
  the row of the user with the greatest date. Among rows of the same greatest date the
  database may return any; the model returns the one inserted first.
\<close>

fun latest :: "Balance list \<Rightarrow> Balance option" where
  "latest [] = None"
| "latest (b # bs) =
     (case latest bs of
        None \<Rightarrow> Some b
      | Some b' \<Rightarrow> if balance_date b < balance_date b' then Some b' else Some b)"

definition last_balance_of :: "store \<Rightarrow> int \<Rightarrow> Balance option" where
  "last_balance_of s user_id = latest (filter (\<lambda>b. balance_user_id b = user_id) (balances s))"

section \<open>Balance functions\<close>

definition get_balance :: "store \<Rightarrow> int \<Rightarrow> int \<Rightarrow> real \<times> store" where
  "get_balance s user_id today =
     (case first (balances_on s user_id today) of
        Some balance_today \<Rightarrow> (balance_balance balance_today, s)
      | None \<Rightarrow>
          (case last_balance_of s user_id of
             None \<Rightarrow>
               (real_of_int DAILY_LIMIT,
                add_Balance s user_id today (real_of_int DAILY_LIMIT))
           | Some last_balance \<Rightarrow>
               (let days_passed = today - balance_date last_balance in
                if days_passed \<le> 0 then (balance_balance last_balance, s)
                else
                  (let new_balance_value =
                         balance_balance last_balance + real_of_int (days_passed * DAILY_LIMIT)
                   in (new_balance_value, add_Balance s user_id today new_balance_value)))))"

text \<open>
  \<^verbatim>\<open>UPDATE balances SET balance = new_balance WHERE user_id = user_id AND date = today\<close>,
  then commit. Every matching row is set; the statement's row count is not read.
\<close>

definition update_balance :: "store \<Rightarrow> int \<Rightarrow> real \<Rightarrow> int \<Rightarrow> store" where
  "update_balance s user_id new_balance today =
     s\<lparr>balances :=
          map (\<lambda>b. if balance_user_id b = user_id \<and> balance_date b = today
                    then b\<lparr>balance_balance := new_balance\<rparr> else b)
              (balances s)\<rparr>"

definition add_expense :: "store \<Rightarrow> int \<Rightarrow> real \<Rightarrow> pystr option \<Rightarrow> int \<Rightarrow> real \<times> store" where
  "add_expense s user_id amount category today =
     (let (balance, s1) = get_balance s user_id today;
          new_balance = balance - amount;
          s2 = add_Expense s1 user_id amount today category;
          s3 = update_balance s2 user_id new_balance today
      in (new_balance, s3))"

definition add_to_budget :: "store \<Rightarrow> int \<Rightarrow> real \<Rightarrow> int \<Rightarrow> real \<times> store" where
  "add_to_budget s user_id amount today =
     (let (current_balance, s1) = get_balance s user_id today;
          new_balance = current_balance + amount;
          s2 = update_balance s1 user_id new_balance today
      in (new_balance, s2))"

section \<open>Strings and dates of the Python library\<close>

definition py :: "string \<Rightarrow> pystr" where
  "py s = map of_char s"

text \<open>
  The label of an expense without category (Russian for "without category": twelve
  Cyrillic letters and a space), as code points.
\<close>

definition no_category :: pystr where
  "no_category = [1041, 1077, 1079, 32, 1082, 1072, 1090, 1077, 1075, 1086, 1088, 1080, 1080]"

text \<open>
  \<^verbatim>\<open>s.split(sep, 1)[1]\<close>: what follows the first separator; without a separator the
  list has one element and the index raises.
\<close>

fun after_sep :: "nat \<Rightarrow> pystr \<Rightarrow> pystr option" where
  "after_sep c [] = None"
| "after_sep c (x # xs) = (if x = c then Some xs else after_sep c xs)"

text \<open>\<^verbatim>\<open>s.split(sep)[1]\<close>: the piece between the first separator and the second.\<close>

definition second_piece :: "nat \<Rightarrow> pystr \<Rightarrow> pystr option" where
  "second_piece c s = map_option (takeWhile (\<lambda>x. x \<noteq> c)) (after_sep c s)"

definition startswith :: "pystr \<Rightarrow> pystr \<Rightarrow> bool" where
  "startswith s p = (take (length p) s = p)"

text \<open>
  \<^verbatim>\<open>today.replace(day=1)\<close> needs the day of the month of an ordinal, computed as
  \<^verbatim>\<open>datetime._ord2ymd\<close> does.
\<close>

definition DAYS_IN_MONTH :: "int \<Rightarrow> int" where
  "DAYS_IN_MONTH m =
     (if m = 2 then 28 else if m = 4 \<or> m = 6 \<or> m = 9 \<or> m = 11 then 30 else 31)"

definition DAYS_BEFORE_MONTH :: "int \<Rightarrow> int" where
  "DAYS_BEFORE_MONTH m =
     (if m = 1 then 0 else if m = 2 then 31 else if m = 3 then 59 else if m = 4 then 90
      else if m = 5 then 120 else if m = 6 then 151 else if m = 7 then 181
      else if m = 8 then 212 else if m = 9 then 243 else if m = 10 then 273
      else if m = 11 then 304 else 334)"

definition ord2ymd :: "int \<Rightarrow> int \<times> int \<times> int" where
  "ord2ymd ordinal =
     (let n = ordinal - 1;
          n400 = n div 146097; na = n mod 146097;
          n100 = na div 36524; nb = na mod 36524;
          n4 = nb div 1461; nc = nb mod 1461;
          n1 = nc div 365; nd = nc mod 365;
          year = n400 * 400 + 1 + n100 * 100 + n4 * 4 + n1
      in if n1 = 4 \<or> n100 = 4 then (year - 1, 12, 31)
         else
           (let leapyear = (n1 = 3 \<and> (n4 \<noteq> 24 \<or> n100 = 3));
                month = (nd + 50) div 32;
                preceding = DAYS_BEFORE_MONTH month + (if 2 < month \<and> leapyear then 1 else 0)
            in if nd < preceding
               then (year, month - 1,
                     nd - (preceding -
                           (DAYS_IN_MONTH (month - 1) +
                            (if month - 1 = 2 \<and> leapyear then 1 else 0))) + 1)
               else (year, month, nd - preceding + 1)))"

definition replace_day1 :: "int \<Rightarrow> int" where
  "replace_day1 today = today - (snd (snd (ord2ymd today)) - 1)"

section \<open>Report functions\<close>

text \<open>
  \<^verbatim>\<open>select(key, func.sum(amount)) ... .group_by(key)\<close>: one row per key, holding the sum of
  the group. The database fixes no order of the groups; the model lists them by first
  occurrence.
\<close>

fun group_sum :: "('k \<times> real) list \<Rightarrow> ('k \<times> real) list" where
  "group_sum [] = []"
| "group_sum ((k, v) # xs) =
     (k, v + sum_list (map snd (filter (\<lambda>p. fst p = k) xs))) #
     group_sum (filter (\<lambda>p. fst p \<noteq> k) xs)"

definition get_stats :: "store \<Rightarrow> int \<Rightarrow> pystr \<Rightarrow> int \<Rightarrow> (pystr option \<times> real) list" where
  "get_stats s user_id period today =
     (let start_date =
            (if period = py ''day'' then today
             else if period = py ''week'' then today - 7
             else if period = py ''month'' then replace_day1 today
             else today)
      in group_sum
           (map (\<lambda>e. (expense_category e, expense_amount e))
              (filter (\<lambda>e. expense_user_id e = user_id \<and> start_date \<le> expense_date e)
                 (expenses s))))"

text \<open>\<^verbatim>\<open>cat or no_category\<close>: an absent and an empty category both get the label.\<close>

definition cat_or :: "pystr option \<Rightarrow> pystr" where
  "cat_or cat = (case cat of None \<Rightarrow> no_category | Some c \<Rightarrow> if c = [] then no_category else c)"

text \<open>
  A Python dictionary is an association list in insertion order: \<open>AList.update\<close> overwrites
  the value of a key that is present and appends a new key at the end. One turn of the
  loop over the rows:
\<close>

definition daily_stats_step ::
  "(int \<times> pystr option) \<times> real \<Rightarrow> (int \<times> (pystr \<times> real) list) list
     \<Rightarrow> (int \<times> (pystr \<times> real) list) list" where
  "daily_stats_step row daily_stats =
     (case row of ((d, cat), amount) \<Rightarrow>
        (let ds = (if map_of daily_stats d = None then AList.update d [] daily_stats
                   else daily_stats)
         in AList.update d
              (AList.update (cat_or cat) amount (case map_of ds d of None \<Rightarrow> [] | Some cats \<Rightarrow> cats))
              ds))"

text \<open>
  The dictionary \<^verbatim>\<open>balances\<close> of the week report is called \<open>day_balances\<close> here,
  \<open>balances\<close> being the table. A sort is stable, so rows of one date keep the order of
  the table.
\<close>

definition get_weekly_stats ::
  "store \<Rightarrow> int \<Rightarrow> int \<Rightarrow>
     (int \<times> (pystr \<times> real) list) list \<times> (int \<times> real) list \<times> real" where
  "get_weekly_stats s user_id today =
     (let start_date = today - 6;
          rows = sort_key (\<lambda>row. fst (fst row))
                   (group_sum
                      (map (\<lambda>e. ((expense_date e, expense_category e), expense_amount e))
                         (filter (\<lambda>e. expense_user_id e = user_id \<and> start_date \<le> expense_date e)
                            (expenses s))));
          daily_stats = fold daily_stats_step rows [];
          balance_rows = sort_key balance_date
                           (filter (\<lambda>b. balance_user_id b = user_id \<and> start_date \<le> balance_date b)
                              (balances s));
          day_balances = fold (\<lambda>b m. AList.update (balance_date b) (balance_balance b) m)
                           balance_rows [];
          total_sum = sum_list (map (\<lambda>(d, cats). sum_list (map snd cats)) daily_stats)
      in (daily_stats, day_balances, total_sum))"

section \<open>Chat handlers\<close>

text \<open>
  The handlers' process-wide state next to the store: \<^verbatim>\<open>pending_expenses\<close> and
  \<^verbatim>\<open>awaiting_budget_add\<close>.
\<close>

record bot =
  db :: store
  pending_expenses :: "int \<rightharpoonup> real"
  awaiting_budget_add :: "int set"

datatype py_error = IndexError | KeyError | ValueError

text \<open>
  A reply is modelled by its kind and the values it shows; the formatting of the numbers
  (\<^verbatim>\<open>:.2f\<close>) and the keyboards are left out. The lines of a report:
\<close>

datatype line =
    Week_header
  | Day_header int
  | Category_line pystr real
  | No_expenses
  | Day_spent real
  | Day_balance real
  | Balance_not_found
  | Week_spent real
  | Period_header pystr
  | Period_line pystr real
  | Period_spent real
  | End_of_day_balance real

datatype message =
    Welcome real
  | Choose_category
  | Budget_changed bool real real
  | No_pending_amount
  | Spent real pystr real
  | Ask_budget_amount
  | Week_empty
  | Report "line list"









definition handle_category :: "bot \<Rightarrow> int \<Rightarrow> pystr \<Rightarrow> int \<Rightarrow> py_error + message \<times> bot" where
  "handle_category st user_id data today =
     (case after_sep 95 data of
        None \<Rightarrow> Inl IndexError
      | Some category \<Rightarrow>
          (case pending_expenses st user_id of
             None \<Rightarrow> Inr (No_pending_amount, st)
           | Some amount \<Rightarrow>
               (let (new_balance, s1) = add_expense (db st) user_id amount (Some category) today
                in Inr (Spent amount category new_balance,
                        st\<lparr>db := s1,
                           pending_expenses := (pending_expenses st)(user_id := None)\<rparr>))))"

definition handle_add_budget :: "bot \<Rightarrow> int \<Rightarrow> py_error + message \<times> bot" where
  "handle_add_budget st user_id =
     Inr (Ask_budget_amount, st\<lparr>awaiting_budget_add := insert user_id (awaiting_budget_add st)\<rparr>)"

text \<open>The lines of one day of the week report.\<close>

definition week_day_lines ::
  "(int \<times> (pystr \<times> real) list) list \<Rightarrow> (int \<times> real) list \<Rightarrow> int \<Rightarrow> line list" where
  "week_day_lines daily_stats day_balances d =
     (let cats = (case map_of daily_stats d of None \<Rightarrow> [] | Some c \<Rightarrow> c)
      in [Day_header d] @
         (if cats \<noteq> [] then map (\<lambda>(cat, amount). Category_line cat amount) cats
          else [No_expenses]) @
         [Day_spent (if cats \<noteq> [] then sum_list (map snd cats) else 0)] @
         [case map_of day_balances d of Some b \<Rightarrow> Day_balance b | None \<Rightarrow> Balance_not_found])"

text \<open>
  The balance of the day report: today's snapshot, or, without one, the value restored
  from the latest snapshot less today's expenses. Nothing is added to the session.
\<close>

definition day_report_balance :: "store \<Rightarrow> int \<Rightarrow> int \<Rightarrow> real" where
  "day_report_balance s user_id today =
     (case first (balances_on s user_id today) of
        Some balance_today \<Rightarrow> balance_balance balance_today
      | None \<Rightarrow>
          (let restored_balance =
                 (case last_balance_of s user_id of
                    Some last_balance_row \<Rightarrow>
                      (let days_passed = today - balance_date last_balance_row
                       in balance_balance last_balance_row + real_of_int (days_passed * DAILY_LIMIT))
                  | None \<Rightarrow> real_of_int DAILY_LIMIT);
               spent_today =
                 sum_list (map expense_amount
                   (filter (\<lambda>e. expense_user_id e = user_id \<and> expense_date e = today)
                      (expenses s)))
           in restored_balance - spent_today))"

definition names :: "pystr \<Rightarrow> pystr option" where
  "names period =
     (if period = py ''day'' then Some [1076, 1077, 1085, 1100]
      else if period = py ''week'' then Some [1085, 1077, 1076, 1077, 1083, 1102]
      else if period = py ''month'' then Some [1084, 1077, 1089, 1103, 1094]
      else None)"

definition stats_callback :: "bot \<Rightarrow> int \<Rightarrow> pystr \<Rightarrow> int \<Rightarrow> py_error + message \<times> bot" where
  "stats_callback st user_id data today =
     (case second_piece 95 data of
        None \<Rightarrow> Inl IndexError
      | Some period \<Rightarrow>
          if period = py ''week'' then
            (case get_weekly_stats (db st) user_id today of
               (daily_stats, day_balances, total_sum) \<Rightarrow>
                 if daily_stats = [] \<and> day_balances = [] then Inr (Week_empty, st)
                 else
                   (let sorted_days =
                          sort (remdups (map fst daily_stats @ map fst day_balances))
                    in Inr (Report
                              ([Week_header] @
                               concat (map (week_day_lines daily_stats day_balances) sorted_days) @
                               [Week_spent total_sum]),
                            st)))
          else
            (let stats = get_stats (db st) user_id period today
             in case names period of
                  None \<Rightarrow> Inl KeyError
                | Some name \<Rightarrow>
                    (let lines =
                           [Period_header name] @
                           map (\<lambda>(category, amount). Period_line (cat_or category) amount) stats @
                           [Period_spent (sum_list (map snd stats))]
                     in Inr (Report
                               (lines @
                                (if period = py ''day''
                                 then [End_of_day_balance
                                         (day_report_balance (db st) user_id today)]
                                 else [])),
                             st))))"


definition on_callback ::
  "bot \<Rightarrow> int \<Rightarrow> pystr \<Rightarrow> int \<Rightarrow> py_error + message option \<times> bot" where
  "on_callback st user_id data today =
     (if startswith data (py ''cat_'')
      then map_sum id (map_prod Some id) (handle_category st user_id data today)
      else if data = py ''add_budget''
      then map_sum id (map_prod Some id) (handle_add_budget st user_id)
      else if startswith data (py ''stats_'')
      then map_sum id (map_prod Some id) (stats_callback st user_id data today)
      else Inr (None, st))"





section \<open>Conditions on the store\<close>

text \<open>The number of rows that the statement of \<open>update_balance\<close> matches.\<close>

definition update_rowcount :: "store \<Rightarrow> int \<Rightarrow> int \<Rightarrow> nat" where
  "update_rowcount s user_id today = length (balances_on s user_id today)"

text \<open>
  The store holds at most one snapshot of the user for \<open>today\<close>, and if it holds none,
  every snapshot of the user is dated before \<open>today\<close>.
\<close>

definition today_resolvable :: "store \<Rightarrow> int \<Rightarrow> int \<Rightarrow> bool" where
  "today_resolvable s user_id today =
     (length (balances_on s user_id today) \<le> 1 \<and>
      (balances_on s user_id today = [] \<longrightarrow>
         (\<forall>b \<in> set (balances s). balance_user_id b = user_id \<longrightarrow> balance_date b < today)))"

definition expenses_on :: "store \<Rightarrow> int \<Rightarrow> int \<Rightarrow> Expense list" where
  "expenses_on s user_id d =
     filter (\<lambda>e. expense_user_id e = user_id \<and> expense_date e = d) (expenses s)"

text \<open>The store as it stood at the end of day \<open>d\<close>: the expense records dated up to \<open>d\<close>.\<close>

definition store_as_of :: "store \<Rightarrow> int \<Rightarrow> store" where
  "store_as_of s d = s\<lparr>expenses := filter (\<lambda>e. expense_date e \<le> d) (expenses s)\<rparr>"

text \<open>The grand total of a \<open>daily_stats\<close> dictionary, and whether it has a label on a day.\<close>

definition stats_total :: "(int \<times> (pystr \<times> real) list) list \<Rightarrow> real" where
  "stats_total daily_stats = sum_list (map (\<lambda>(d, cats). sum_list (map snd cats)) daily_stats)"

definition stats_has :: "(int \<times> (pystr \<times> real) list) list \<Rightarrow> int \<Rightarrow> pystr \<Rightarrow> bool" where
  "stats_has daily_stats d l =
     (case map_of daily_stats d of None \<Rightarrow> False | Some cats \<Rightarrow> map_of cats l \<noteq> None)"

text \<open>
  No two expense records of the user from \<open>start_date\<close> on, of one day and of different
  categories, get the same label from \<open>cat_or\<close>.
\<close>

definition labels_unambiguous :: "store \<Rightarrow> int \<Rightarrow> int \<Rightarrow> bool" where
  "labels_unambiguous s user_id start_date =
     (\<forall>e1 \<in> set (expenses s). \<forall>e2 \<in> set (expenses s).
        expense_user_id e1 = user_id \<and> expense_user_id e2 = user_id \<and>
        start_date \<le> expense_date e1 \<and> expense_date e1 = expense_date e2 \<and>
        cat_or (expense_category e1) = cat_or (expense_category e2) \<longrightarrow>
        expense_category e1 = expense_category e2)"

section \<open>The accrual engine\<close>

lemma latest_None: "latest bs = None \<longleftrightarrow> bs = []"
  by (induction bs) (auto split: option.splits)

lemma latest_mem: "latest bs = Some b \<Longrightarrow> b \<in> set bs"
  by (induction bs arbitrary: b) (auto split: option.splits if_splits)

lemma latest_max: "latest bs = Some b \<Longrightarrow> b' \<in> set bs \<Longrightarrow> balance_date b' \<le> balance_date b"
proof (induction bs arbitrary: b)
  case Nil
  then show ?case by simp
next
  case (Cons a bs)
  show ?case
  proof (cases "latest bs")
    case None
    then have "bs = []" by (simp add: latest_None)
    with Cons.prems None show ?thesis by simp
  next
    case (Some c)
    with Cons.prems Cons.IH [OF Some] show ?thesis
      by (auto split: if_splits)
  qed
qed

lemma last_balance_of_None:
  "last_balance_of s u = None \<longleftrightarrow> (\<forall>b \<in> set (balances s). balance_user_id b \<noteq> u)"
  by (auto simp: last_balance_of_def latest_None filter_empty_conv)

lemma first_None: "first xs = None \<longleftrightarrow> xs = []"
  by (cases xs) auto

lemma balances_on_empty:
  "balances_on s u t = [] \<longleftrightarrow>
     (\<forall>b \<in> set (balances s). \<not> (balance_user_id b = u \<and> balance_date b = t))"
  by (auto simp: balances_on_def filter_empty_conv)

lemma last_balance_of_mem:
  "last_balance_of s u = Some r \<Longrightarrow> r \<in> set (balances s) \<and> balance_user_id r = u"
  by (auto simp: last_balance_of_def dest: latest_mem)

lemma last_balance_of_max:
  "last_balance_of s u = Some r \<Longrightarrow> b \<in> set (balances s) \<Longrightarrow> balance_user_id b = u
     \<Longrightarrow> balance_date b \<le> balance_date r"
  by (auto simp: last_balance_of_def intro: latest_max)

lemma get_balance_today:
  "first (balances_on s u t) = Some r \<Longrightarrow> get_balance s u t = (balance_balance r, s)"
  by (simp add: get_balance_def)

lemma get_balance_fresh:
  "balances_on s u t = [] \<Longrightarrow> last_balance_of s u = None \<Longrightarrow>
     get_balance s u t = (real_of_int DAILY_LIMIT, add_Balance s u t (real_of_int DAILY_LIMIT))"
  by (simp add: get_balance_def)

lemma get_balance_catchup:
  "balances_on s u t = [] \<Longrightarrow> last_balance_of s u = Some r \<Longrightarrow> balance_date r < t \<Longrightarrow>
     get_balance s u t =
       (balance_balance r + real_of_int ((t - balance_date r) * DAILY_LIMIT),
        add_Balance s u t (balance_balance r + real_of_int ((t - balance_date r) * DAILY_LIMIT)))"
  by (simp add: get_balance_def Let_def)

lemma get_balance_skew:
  "balances_on s u t = [] \<Longrightarrow> last_balance_of s u = Some r \<Longrightarrow> t \<le> balance_date r \<Longrightarrow>
     get_balance s u t = (balance_balance r, s)"
  by (simp add: get_balance_def Let_def)

text \<open>
  C1. First touch of a day. Let the store hold no snapshot of the user for \<open>today\<close>.
  If it holds no snapshot of the user at all, \<open>get_balance\<close> returns \<open>DAILY_LIMIT\<close>; if the
  user's latest snapshot \<open>r\<close> is dated \<open>k = today - d \<ge> 1\<close> days back with balance \<open>b\<close>, it
  returns \<open>b + k * DAILY_LIMIT\<close>. In both cases the balances table afterwards is the old one
  followed by exactly one new row, for the user and \<open>today\<close>, holding the returned value (no
  row for a day in between), and the expenses table is unchanged.
\<close>

theorem get_balance_first_touch:
  assumes "balances_on s u today = []"
  shows "((\<forall>b \<in> set (balances s). balance_user_id b \<noteq> u) \<longrightarrow>
            fst (get_balance s u today) = real_of_int DAILY_LIMIT) \<and>
         (r \<in> set (balances s) \<and> balance_user_id r = u \<and>
          (\<forall>b \<in> set (balances s). balance_user_id b = u \<longrightarrow>
              balance_date b \<le> balance_date r \<and>
              (balance_date b = balance_date r \<longrightarrow> balance_balance b = balance_balance r)) \<and>
          1 \<le> today - balance_date r \<longrightarrow>
            fst (get_balance s u today) =
              balance_balance r + real_of_int (today - balance_date r) * real_of_int DAILY_LIMIT) \<and>
         ((\<forall>b \<in> set (balances s). balance_user_id b = u \<longrightarrow> balance_date b < today) \<longrightarrow>
            balances (snd (get_balance s u today)) =
              balances s @
                [\<lparr>balance_id = balance_seq s, balance_user_id = u, balance_date = today,
                  balance_balance = fst (get_balance s u today)\<rparr>] \<and>
            expenses (snd (get_balance s u today)) = expenses s)"
proof (intro conjI impI)
  assume none: "\<forall>b \<in> set (balances s). balance_user_id b \<noteq> u"
  then have "last_balance_of s u = None" by (simp add: last_balance_of_None)
  with assms show "fst (get_balance s u today) = real_of_int DAILY_LIMIT"
    by (simp add: get_balance_fresh)
next
  assume h: "r \<in> set (balances s) \<and> balance_user_id r = u \<and>
          (\<forall>b \<in> set (balances s). balance_user_id b = u \<longrightarrow>
              balance_date b \<le> balance_date r \<and>
              (balance_date b = balance_date r \<longrightarrow> balance_balance b = balance_balance r)) \<and>
          1 \<le> today - balance_date r"
  then have rin: "r \<in> set (balances s)" and ru: "balance_user_id r = u"
    and rmax: "\<And>b. b \<in> set (balances s) \<Longrightarrow> balance_user_id b = u \<Longrightarrow>
                 balance_date b \<le> balance_date r \<and>
                 (balance_date b = balance_date r \<longrightarrow> balance_balance b = balance_balance r)"
    by blast+
  from rin ru have "last_balance_of s u \<noteq> None"
    unfolding last_balance_of_None by blast
  then obtain q where q: "last_balance_of s u = Some q" by blast
  note qm = last_balance_of_mem [OF q]
  from rmax [of q] qm have "balance_date q \<le> balance_date r" by blast
  moreover from last_balance_of_max [OF q rin ru] have "balance_date r \<le> balance_date q" .
  ultimately have d: "balance_date q = balance_date r" by simp
  with rmax [of q] qm have b: "balance_balance q = balance_balance r" by blast
  from h d have "balance_date q < today" by simp
  from get_balance_catchup [OF assms q this] d b
  show "fst (get_balance s u today) =
          balance_balance r + real_of_int (today - balance_date r) * real_of_int DAILY_LIMIT"
    by simp
next
  assume past: "\<forall>b \<in> set (balances s). balance_user_id b = u \<longrightarrow> balance_date b < today"
  show "balances (snd (get_balance s u today)) =
              balances s @
                [\<lparr>balance_id = balance_seq s, balance_user_id = u, balance_date = today,
                  balance_balance = fst (get_balance s u today)\<rparr>]"
  proof (cases "last_balance_of s u")
    case None
    with assms show ?thesis by (simp add: get_balance_fresh add_Balance_def)
  next
    case (Some q)
    with past last_balance_of_mem [OF Some] have "balance_date q < today" by auto
    from get_balance_catchup [OF assms Some this] show ?thesis by (simp add: add_Balance_def)
  qed
  show "expenses (snd (get_balance s u today)) = expenses s"
  proof (cases "last_balance_of s u")
    case None
    with assms show ?thesis by (simp add: get_balance_fresh add_Balance_def)
  next
    case (Some q)
    with past last_balance_of_mem [OF Some] have "balance_date q < today" by auto
    from get_balance_catchup [OF assms Some this] show ?thesis by (simp add: add_Balance_def)
  qed
qed

theorem get_balance_first_touch_witness:
  "fst (get_balance \<lparr>expenses = [], balances = [], expense_seq = 1, balance_seq = 1\<rparr> 7 10) = 2000 \<and>
   balances (snd (get_balance \<lparr>expenses = [], balances = [], expense_seq = 1, balance_seq = 1\<rparr> 7 10)) =
     [\<lparr>balance_id = 1, balance_user_id = 7, balance_date = 10, balance_balance = 2000\<rparr>] \<and>
   fst (get_balance \<lparr>expenses = [], balances =
          [\<lparr>balance_id = 1, balance_user_id = 7, balance_date = 10, balance_balance = 1500\<rparr>],
          expense_seq = 1, balance_seq = 2\<rparr> 7 13) = 7500 \<and>
   balances (snd (get_balance \<lparr>expenses = [], balances =
          [\<lparr>balance_id = 1, balance_user_id = 7, balance_date = 10, balance_balance = 1500\<rparr>],
          expense_seq = 1, balance_seq = 2\<rparr> 7 13)) =
     [\<lparr>balance_id = 1, balance_user_id = 7, balance_date = 10, balance_balance = 1500\<rparr>,
      \<lparr>balance_id = 2, balance_user_id = 7, balance_date = 13, balance_balance = 7500\<rparr>]"
  using get_balance_first_touch
          [of "\<lparr>expenses = [], balances = [], expense_seq = 1, balance_seq = 1\<rparr>" 7 10]
        get_balance_first_touch
          [of "\<lparr>expenses = [], balances =
                 [\<lparr>balance_id = 1, balance_user_id = 7, balance_date = 10, balance_balance = 1500\<rparr>],
                 expense_seq = 1, balance_seq = 2\<rparr>" 7 13
              "\<lparr>balance_id = 1, balance_user_id = 7, balance_date = 10, balance_balance = 1500\<rparr>"]
  by (simp add: balances_on_def DAILY_LIMIT_def)

lemma balances_on_add_Balance:
  "balances_on (add_Balance s u d b) u' t =
     balances_on s u' t @
       (if u = u' \<and> d = t
        then [\<lparr>balance_id = balance_seq s, balance_user_id = u, balance_date = d,
               balance_balance = b\<rparr>]
        else [])"
  by (simp add: balances_on_def add_Balance_def)

lemma balances_on_add_Expense:
  "balances_on (add_Expense s u a d c) u' t = balances_on s u' t"
  by (simp add: balances_on_def add_Expense_def)

lemma filter_map_update:
  "filter (\<lambda>b. balance_user_id b = u \<and> balance_date b = t)
     (map (\<lambda>b. if balance_user_id b = u \<and> balance_date b = t
               then b\<lparr>balance_balance := nb\<rparr> else b) bs) =
   map (\<lambda>b. b\<lparr>balance_balance := nb\<rparr>)
     (filter (\<lambda>b. balance_user_id b = u \<and> balance_date b = t) bs)"
  by (induction bs) auto

lemma balances_on_update_balance:
  "balances_on (update_balance s u nb t) u t =
     map (\<lambda>b. b\<lparr>balance_balance := nb\<rparr>) (balances_on s u t)"
  by (simp add: balances_on_def update_balance_def filter_map_update)

lemma expenses_add_Balance: "expenses (add_Balance s u d b) = expenses s"
  by (simp add: add_Balance_def)

lemma expenses_update_balance: "expenses (update_balance s u nb t) = expenses s"
  by (simp add: update_balance_def)

lemma expenses_get_balance: "expenses (snd (get_balance s u t)) = expenses s"
  by (simp add: get_balance_def Let_def expenses_add_Balance split: option.splits)

lemma get_balance_single:
  "balances_on s u t = [r] \<Longrightarrow> get_balance s u t = (balance_balance r, s)"
  by (simp add: get_balance_today)

lemma get_balance_row:
  assumes "today_resolvable s u t"
  shows "\<exists>r. balances_on (snd (get_balance s u t)) u t = [r] \<and>
             balance_balance r = fst (get_balance s u t)"
proof (cases "balances_on s u t")
  case Nil
  with assms have past: "\<And>b. b \<in> set (balances s) \<Longrightarrow> balance_user_id b = u \<Longrightarrow> balance_date b < t"
    by (simp add: today_resolvable_def)
  show ?thesis
  proof (cases "last_balance_of s u")
    case None
    from get_balance_fresh [OF Nil None] Nil show ?thesis
      by (simp add: balances_on_add_Balance)
  next
    case (Some q)
    from last_balance_of_mem [OF Some] past have "balance_date q < t" by blast
    from get_balance_catchup [OF Nil Some this] Nil show ?thesis
      by (simp add: balances_on_add_Balance)
  qed
next
  case (Cons r rs)
  with assms have "rs = []" by (simp add: today_resolvable_def)
  with Cons have one: "balances_on s u t = [r]" by simp
  from get_balance_single [OF one] one show ?thesis by simp
qed

text \<open>
  C6. Idempotence. A second \<open>get_balance\<close> on the same day, with nothing written in
  between, returns the value of the first and leaves the store as the first left it: no
  further snapshot. And whenever the latest snapshot found gives \<open>days_passed \<le> 0\<close>, its
  balance is returned and the store is left as it was.
\<close>

theorem get_balance_idempotent:
  "get_balance (snd (get_balance s u today)) u today =
     (fst (get_balance s u today), snd (get_balance s u today)) \<and>
   (balances_on s u today = [] \<and> last_balance_of s u = Some r \<and> today - balance_date r \<le> 0 \<longrightarrow>
      get_balance s u today = (balance_balance r, s))"
proof (intro conjI impI)
  show "get_balance (snd (get_balance s u today)) u today =
     (fst (get_balance s u today), snd (get_balance s u today))"
  proof (cases "first (balances_on s u today)")
    case (Some q)
    then show ?thesis by (simp add: get_balance_today)
  next
    case None
    then have nil: "balances_on s u today = []" by (simp add: first_None)
    show ?thesis
    proof (cases "last_balance_of s u")
      case None
      from get_balance_fresh [OF nil None] nil show ?thesis
        by (simp add: get_balance_today balances_on_add_Balance)
    next
      case (Some q)
      show ?thesis
      proof (cases "balance_date q < today")
        case True
        from get_balance_catchup [OF nil Some True] nil show ?thesis
          by (simp add: get_balance_today balances_on_add_Balance)
      next
        case False
        then have "today \<le> balance_date q" by simp
        from get_balance_skew [OF nil Some this] show ?thesis by simp
      qed
    qed
  qed
next
  assume "balances_on s u today = [] \<and> last_balance_of s u = Some r \<and> today - balance_date r \<le> 0"
  then show "get_balance s u today = (balance_balance r, s)"
    by (simp add: get_balance_skew)
qed

theorem get_balance_idempotent_witness:
  "get_balance
     \<lparr>expenses = [], balances =
        [\<lparr>balance_id = 1, balance_user_id = 7, balance_date = 11, balance_balance = 2000\<rparr>],
      expense_seq = 1, balance_seq = 2\<rparr> 7 10 =
   (2000,
    \<lparr>expenses = [], balances =
        [\<lparr>balance_id = 1, balance_user_id = 7, balance_date = 11, balance_balance = 2000\<rparr>],
      expense_seq = 1, balance_seq = 2\<rparr>)"
  using get_balance_idempotent
          [of "\<lparr>expenses = [], balances =
                 [\<lparr>balance_id = 1, balance_user_id = 7, balance_date = 11,
                   balance_balance = 2000\<rparr>],
                 expense_seq = 1, balance_seq = 2\<rparr>" 7 10
              "\<lparr>balance_id = 1, balance_user_id = 7, balance_date = 11, balance_balance = 2000\<rparr>"]
  by (simp add: balances_on_def last_balance_of_def)

lemma add_expense_eq:
  "add_expense s u a c t =
     (fst (get_balance s u t) - a,
      update_balance (add_Expense (snd (get_balance s u t)) u a t c) u
        (fst (get_balance s u t) - a) t)"
  by (simp add: add_expense_def split_beta Let_def)

lemma add_to_budget_eq:
  "add_to_budget s u a t =
     (fst (get_balance s u t) + a,
      update_balance (snd (get_balance s u t)) u (fst (get_balance s u t) + a) t)"
  by (simp add: add_to_budget_def split_beta Let_def)

lemma others_update_balance:
  "filter (\<lambda>b. \<not> (balance_user_id b = u \<and> balance_date b = t))
     (balances (update_balance s u nb t)) =
   filter (\<lambda>b. \<not> (balance_user_id b = u \<and> balance_date b = t)) (balances s)"
proof -
  have "filter (\<lambda>b. \<not> (balance_user_id b = u \<and> balance_date b = t))
          (map (\<lambda>b. if balance_user_id b = u \<and> balance_date b = t
                    then b\<lparr>balance_balance := nb\<rparr> else b) bs) =
        filter (\<lambda>b. \<not> (balance_user_id b = u \<and> balance_date b = t)) bs" for bs
    by (induction bs) auto
  then show ?thesis by (simp add: update_balance_def)
qed

lemma balances_add_Expense: "balances (add_Expense s u a d c) = balances s"
  by (simp add: add_Expense_def)

text \<open>
  C5, as the code has it. When the store holds at most one snapshot of the user for
  \<open>today\<close> and, if it holds none, no snapshot of the user dated after \<open>today\<close>, then at
  the update of \<open>add_expense\<close> and of \<open>add_to_budget\<close> exactly one row of the user for
  \<open>today\<close> exists; the update sets that row to the new balance and leaves every other row
  as it was.
\<close>

theorem update_targets_one_row:
  assumes "today_resolvable s u today"
  shows "update_rowcount (add_Expense (snd (get_balance s u today)) u amount today category)
           u today = 1 \<and>
         update_rowcount (snd (get_balance s u today)) u today = 1 \<and>
         (\<exists>r. balances_on (snd (get_balance s u today)) u today = [r] \<and>
              balances_on (snd (add_expense s u amount category today)) u today =
                [r\<lparr>balance_balance := fst (add_expense s u amount category today)\<rparr>] \<and>
              balances_on (snd (add_to_budget s u delta today)) u today =
                [r\<lparr>balance_balance := fst (add_to_budget s u delta today)\<rparr>]) \<and>
         filter (\<lambda>b. \<not> (balance_user_id b = u \<and> balance_date b = today))
           (balances (snd (add_expense s u amount category today))) =
         filter (\<lambda>b. \<not> (balance_user_id b = u \<and> balance_date b = today))
           (balances (snd (get_balance s u today))) \<and>
         filter (\<lambda>b. \<not> (balance_user_id b = u \<and> balance_date b = today))
           (balances (snd (add_to_budget s u delta today))) =
         filter (\<lambda>b. \<not> (balance_user_id b = u \<and> balance_date b = today))
           (balances (snd (get_balance s u today)))"
proof -
  from get_balance_row [OF assms] obtain r
    where r: "balances_on (snd (get_balance s u today)) u today = [r]" by blast
  have 1: "update_rowcount (add_Expense (snd (get_balance s u today)) u amount today category)
           u today = 1"
    by (simp add: update_rowcount_def balances_on_add_Expense r)
  have 2: "update_rowcount (snd (get_balance s u today)) u today = 1"
    by (simp add: update_rowcount_def r)
  have 3: "balances_on (snd (add_expense s u amount category today)) u today =
                [r\<lparr>balance_balance := fst (add_expense s u amount category today)\<rparr>]"
    by (simp add: add_expense_eq balances_on_update_balance balances_on_add_Expense r)
  have 4: "balances_on (snd (add_to_budget s u delta today)) u today =
                [r\<lparr>balance_balance := fst (add_to_budget s u delta today)\<rparr>]"
    by (simp add: add_to_budget_eq balances_on_update_balance r)
  have 5: "filter (\<lambda>b. \<not> (balance_user_id b = u \<and> balance_date b = today))
           (balances (snd (add_expense s u amount category today))) =
         filter (\<lambda>b. \<not> (balance_user_id b = u \<and> balance_date b = today))
           (balances (snd (get_balance s u today)))"
    by (simp only: add_expense_eq snd_conv others_update_balance balances_add_Expense)
  have 6: "filter (\<lambda>b. \<not> (balance_user_id b = u \<and> balance_date b = today))
           (balances (snd (add_to_budget s u delta today))) =
         filter (\<lambda>b. \<not> (balance_user_id b = u \<and> balance_date b = today))
           (balances (snd (get_balance s u today)))"
    by (simp only: add_to_budget_eq snd_conv others_update_balance)
  from r 1 2 3 4 5 6 show ?thesis by blast
qed

theorem update_targets_one_row_witness:
  "update_rowcount
     (snd (get_balance
        \<lparr>expenses = [], balances =
           [\<lparr>balance_id = 1, balance_user_id = 7, balance_date = 10, balance_balance = 1500\<rparr>],
         expense_seq = 1, balance_seq = 2\<rparr> 7 13)) 7 13 = 1"
  using update_targets_one_row
          [of "\<lparr>expenses = [], balances =
                 [\<lparr>balance_id = 1, balance_user_id = 7, balance_date = 10,
                   balance_balance = 1500\<rparr>],
                 expense_seq = 1, balance_seq = 2\<rparr>" 7 13]
  by (simp add: today_resolvable_def balances_on_def)

theorem update_matches_no_row_counterexample:
  "update_rowcount
     (add_Expense
        (snd (get_balance
           \<lparr>expenses = [], balances =
              [\<lparr>balance_id = 1, balance_user_id = 7, balance_date = 11, balance_balance = 2000\<rparr>],
            expense_seq = 1, balance_seq = 2\<rparr> 7 10))
        7 100 10 None) 7 10 = 0 \<and>
   balances (snd (add_expense
      \<lparr>expenses = [], balances =
         [\<lparr>balance_id = 1, balance_user_id = 7, balance_date = 11, balance_balance = 2000\<rparr>],
       expense_seq = 1, balance_seq = 2\<rparr> 7 100 None 10)) =
     [\<lparr>balance_id = 1, balance_user_id = 7, balance_date = 11, balance_balance = 2000\<rparr>]"
  by (simp add: update_rowcount_def add_expense_def get_balance_def balances_on_def
        last_balance_of_def add_Expense_def update_balance_def Let_def)

lemma expense_seq_get_balance: "expense_seq (snd (get_balance s u t)) = expense_seq s"
  by (simp add: get_balance_def Let_def add_Balance_def split: option.splits)

lemma expenses_add_expense:
  "expenses (snd (add_expense s u a c t)) =
     expenses s @
       [\<lparr>expense_id = expense_seq s, expense_user_id = u, expense_amount = a,
         expense_date = t, expense_category = c\<rparr>]"
  by (simp add: add_expense_eq expenses_update_balance add_Expense_def expenses_get_balance
        expense_seq_get_balance)

lemma expense_seq_add_expense:
  "expense_seq (snd (add_expense s u a c t)) = expense_seq s + 1"
  by (simp add: add_expense_eq update_balance_def add_Expense_def expense_seq_get_balance)

lemma add_expense_row:
  assumes "today_resolvable s u t"
  shows "\<exists>r. balances_on (snd (add_expense s u a c t)) u t = [r] \<and>
             balance_balance r = fst (get_balance s u t) - a"
proof -
  from get_balance_row [OF assms] obtain r
    where r: "balances_on (snd (get_balance s u t)) u t = [r]" by blast
  then have "balances_on (snd (add_expense s u a c t)) u t =
               [r\<lparr>balance_balance := fst (get_balance s u t) - a\<rparr>]"
    by (simp add: add_expense_eq balances_on_update_balance balances_on_add_Expense)
  then show ?thesis by simp
qed

text \<open>
  C2, as the code has it. Let the store hold at most one snapshot of the user for
  \<open>today\<close> and, if it holds none, no snapshot of the user dated after \<open>today\<close>. Then two
  postings \<open>a1\<close>, \<open>a2\<close> in sequence return, the second, the balance resolved before less
  \<open>a1\<close> less \<open>a2\<close>; resolving the balance afterwards returns the same and writes nothing;
  the user's expense records of \<open>today\<close> are the former ones followed by exactly the two
  new ones; and exactly one snapshot of the user for \<open>today\<close> exists, holding that value.
\<close>

theorem add_expense_twice:
  assumes "today_resolvable s u today"
  shows "fst (add_expense (snd (add_expense s u a1 c1 today)) u a2 c2 today) =
           fst (get_balance s u today) - a1 - a2 \<and>
         get_balance (snd (add_expense (snd (add_expense s u a1 c1 today)) u a2 c2 today)) u today =
           (fst (get_balance s u today) - a1 - a2,
            snd (add_expense (snd (add_expense s u a1 c1 today)) u a2 c2 today)) \<and>
         expenses_on (snd (add_expense (snd (add_expense s u a1 c1 today)) u a2 c2 today)) u today =
           expenses_on s u today @
             [\<lparr>expense_id = expense_seq s, expense_user_id = u, expense_amount = a1,
               expense_date = today, expense_category = c1\<rparr>,
              \<lparr>expense_id = expense_seq s + 1, expense_user_id = u, expense_amount = a2,
               expense_date = today, expense_category = c2\<rparr>] \<and>
         (\<exists>r. balances_on (snd (add_expense (snd (add_expense s u a1 c1 today)) u a2 c2 today))
                u today = [r] \<and>
              balance_balance r = fst (get_balance s u today) - a1 - a2)"
proof -
  let ?s1 = "snd (add_expense s u a1 c1 today)"
  let ?s2 = "snd (add_expense ?s1 u a2 c2 today)"
  let ?bb = "fst (get_balance s u today)"
  from add_expense_row [OF assms, of a1 c1] obtain r1
    where r1: "balances_on ?s1 u today = [r1]" and b1: "balance_balance r1 = ?bb - a1"
    by blast
  from get_balance_single [OF r1] b1 have g1: "get_balance ?s1 u today = (?bb - a1, ?s1)"
    by simp
  from r1 have res1: "today_resolvable ?s1 u today" by (simp add: today_resolvable_def)
  from add_expense_row [OF res1, of a2 c2] g1 obtain r2
    where r2: "balances_on ?s2 u today = [r2]" and b2: "balance_balance r2 = ?bb - a1 - a2"
    by auto
  have v: "fst (add_expense ?s1 u a2 c2 today) = ?bb - a1 - a2"
    by (simp add: add_expense_eq [of ?s1] g1)
  from get_balance_single [OF r2] b2 have g2: "get_balance ?s2 u today = (?bb - a1 - a2, ?s2)"
    by simp
  have e: "expenses_on ?s2 u today =
           expenses_on s u today @
             [\<lparr>expense_id = expense_seq s, expense_user_id = u, expense_amount = a1,
               expense_date = today, expense_category = c1\<rparr>,
              \<lparr>expense_id = expense_seq s + 1, expense_user_id = u, expense_amount = a2,
               expense_date = today, expense_category = c2\<rparr>]"
    by (simp add: expenses_on_def expenses_add_expense expense_seq_add_expense)
  from v g2 e r2 b2 show ?thesis by blast
qed

theorem add_expense_twice_witness:
  "fst (add_expense (snd (add_expense
          \<lparr>expenses = [], balances = [], expense_seq = 1, balance_seq = 1\<rparr>
          7 100 (Some (py ''a'')) 10)) 7 50 None 10) = 1850"
  using add_expense_twice
          [of "\<lparr>expenses = [], balances = [], expense_seq = 1, balance_seq = 1\<rparr>" 7 10
              100 "Some (py ''a'')" 50 None]
  by (simp add: today_resolvable_def balances_on_def get_balance_def last_balance_of_def
        DAILY_LIMIT_def)

theorem add_expense_twice_counterexample:
  "fst (get_balance
          \<lparr>expenses = [], balances =
             [\<lparr>balance_id = 1, balance_user_id = 7, balance_date = 11, balance_balance = 2000\<rparr>],
           expense_seq = 1, balance_seq = 2\<rparr> 7 10) = 2000 \<and>
   fst (add_expense (snd (add_expense
          \<lparr>expenses = [], balances =
             [\<lparr>balance_id = 1, balance_user_id = 7, balance_date = 11, balance_balance = 2000\<rparr>],
           expense_seq = 1, balance_seq = 2\<rparr> 7 100 None 10)) 7 50 None 10) = 1950 \<and>
   balances_on (snd (add_expense (snd (add_expense
          \<lparr>expenses = [], balances =
             [\<lparr>balance_id = 1, balance_user_id = 7, balance_date = 11, balance_balance = 2000\<rparr>],
           expense_seq = 1, balance_seq = 2\<rparr> 7 100 None 10)) 7 50 None 10)) 7 10 = []"
  by (simp add: add_expense_def get_balance_def balances_on_def
        last_balance_of_def add_Expense_def update_balance_def Let_def)

lemma after_sep_cat:
  assumes "startswith data (py ''cat_'')"
  shows "after_sep 95 data = Some (drop 4 data)"
proof -
  have len: "length (py ''cat_'') = 4" by (simp add: py_def)
  from assms have "take 4 data = py ''cat_''" unfolding startswith_def len .
  then have t: "take 4 data = [99, 97, 116, 95]" by (simp add: py_def)
  have "data = take 4 data @ drop 4 data" by simp
  with t have "data = [99, 97, 116, 95] @ drop 4 data" by simp
  then have "after_sep 95 data = after_sep 95 ([99, 97, 116, 95] @ drop 4 data)" by simp
  then show ?thesis by simp
qed

text \<open>
  C9. A category chosen while no amount is pending for the user: the dispatcher hands the
  callback to \<open>handle_category\<close>, which answers with the alert "no pending amount" and
  returns normally, with the store and the handlers' state exactly as they were.
\<close>

theorem category_without_pending:
  assumes "pending_expenses st u = None" and "startswith data (py ''cat_'')"
  shows "handle_category st u data today = Inr (No_pending_amount, st) \<and>
         on_callback st u data today = Inr (Some No_pending_amount, st)"
proof -
  from after_sep_cat [OF assms(2)] assms(1)
  have h: "handle_category st u data today = Inr (No_pending_amount, st)"
    by (simp add: handle_category_def)
  with assms(2) show ?thesis by (simp add: on_callback_def)
qed

theorem category_without_pending_witness:
  "on_callback
     \<lparr>db = \<lparr>expenses = [], balances = [], expense_seq = 1, balance_seq = 1\<rparr>,
      pending_expenses = Map.empty, awaiting_budget_add = {}\<rparr> 7 (py ''cat_x'') 10 =
   Inr (Some No_pending_amount,
     \<lparr>db = \<lparr>expenses = [], balances = [], expense_seq = 1, balance_seq = 1\<rparr>,
      pending_expenses = Map.empty, awaiting_budget_add = {}\<rparr>)"
  using category_without_pending
          [of "\<lparr>db = \<lparr>expenses = [], balances = [], expense_seq = 1, balance_seq = 1\<rparr>,
                pending_expenses = Map.empty, awaiting_budget_add = {}\<rparr>" 7 "py ''cat_x''" 10]
  by (simp add: startswith_def py_def)



lemma balances_add_expense:
  "balances (snd (add_expense s u a c t)) =
     map (\<lambda>b. if balance_user_id b = u \<and> balance_date b = t
               then b\<lparr>balance_balance := fst (get_balance s u t) - a\<rparr> else b)
       (balances (snd (get_balance s u t)))"
  by (simp add: add_expense_eq update_balance_def balances_add_Expense)

lemma second_piece_stats_day: "second_piece 95 (py ''stats_day'') = Some (py ''day'')"
  by (simp add: second_piece_def py_def)

lemma second_piece_stats_week: "second_piece 95 (py ''stats_week'') = Some (py ''week'')"
  by (simp add: second_piece_def py_def)

lemma day_not_week: "py ''day'' \<noteq> py ''week''"
  by (simp add: py_def)

lemma day_report_balance_today:
  "first (balances_on s u t) = Some r \<Longrightarrow> day_report_balance s u t = balance_balance r"
  by (simp add: day_report_balance_def)

lemma day_report_balance_fresh:
  "balances_on s u t = [] \<Longrightarrow> last_balance_of s u = None \<Longrightarrow>
     day_report_balance s u t =
       real_of_int DAILY_LIMIT - sum_list (map expense_amount (expenses_on s u t))"
  by (simp add: day_report_balance_def expenses_on_def)

lemma day_report_balance_restored:
  "balances_on s u t = [] \<Longrightarrow> last_balance_of s u = Some r \<Longrightarrow>
     day_report_balance s u t =
       balance_balance r + real_of_int ((t - balance_date r) * DAILY_LIMIT) -
       sum_list (map expense_amount (expenses_on s u t))"
  by (simp add: day_report_balance_def expenses_on_def Let_def)

text \<open>
  C3, as the code has it. Let the store hold a snapshot of the user for \<open>today\<close>, or
  only snapshots of the user dated before \<open>today\<close>. Then the balance of the day report is
  the value \<open>get_balance\<close> returns on the same store, less the user's expenses of \<open>today\<close>
  when no snapshot for \<open>today\<close> exists: the same value when a snapshot for \<open>today\<close> exists
  or the user has no expense record for \<open>today\<close>. The day report returns the handlers'
  state, and the store in it, as it was.
\<close>

theorem day_report_balance_vs_get_balance:
  assumes "balances_on s u today = [] \<longrightarrow>
             (\<forall>b \<in> set (balances s). balance_user_id b = u \<longrightarrow> balance_date b < today)"
  shows "day_report_balance s u today =
           fst (get_balance s u today) -
           (if balances_on s u today = []
            then sum_list (map expense_amount (expenses_on s u today)) else 0) \<and>
         (balances_on s u today \<noteq> [] \<or> expenses_on s u today = [] \<longrightarrow>
            day_report_balance s u today = fst (get_balance s u today)) \<and>
         (\<exists>lines. stats_callback st u (py ''stats_day'') today =
            Inr (Report (lines @ [End_of_day_balance (day_report_balance (db st) u today)]), st))"
proof -
  have eq: "day_report_balance s u today =
           fst (get_balance s u today) -
           (if balances_on s u today = []
            then sum_list (map expense_amount (expenses_on s u today)) else 0)"
  proof (cases "balances_on s u today")
    case (Cons r rs)
    then have f: "first (balances_on s u today) = Some r" by simp
    from day_report_balance_today [OF f] get_balance_today [OF f] Cons show ?thesis by simp
  next
    case Nil
    with assms have past: "\<And>b. b \<in> set (balances s) \<Longrightarrow> balance_user_id b = u \<Longrightarrow>
                             balance_date b < today"
      by blast
    show ?thesis
    proof (cases "last_balance_of s u")
      case None
      from day_report_balance_fresh [OF Nil None] get_balance_fresh [OF Nil None] Nil
      show ?thesis by simp
    next
      case (Some q)
      from last_balance_of_mem [OF Some] past have "balance_date q < today" by blast
      from day_report_balance_restored [OF Nil Some] get_balance_catchup [OF Nil Some this] Nil
      show ?thesis by simp
    qed
  qed
  have same: "balances_on s u today \<noteq> [] \<or> expenses_on s u today = [] \<longrightarrow>
            day_report_balance s u today = fst (get_balance s u today)"
    using eq by auto
  have "stats_callback st u (py ''stats_day'') today =
          Inr (Report (([Period_header [1076, 1077, 1085, 1100]] @
                 map (\<lambda>(category, amount). Period_line (cat_or category) amount)
                   (get_stats (db st) u (py ''day'') today) @
                 [Period_spent (sum_list (map snd (get_stats (db st) u (py ''day'') today)))]) @
                [End_of_day_balance (day_report_balance (db st) u today)]), st)"
    by (simp add: stats_callback_def second_piece_stats_day day_not_week names_def Let_def)
  then have "\<exists>lines. stats_callback st u (py ''stats_day'') today =
            Inr (Report (lines @ [End_of_day_balance (day_report_balance (db st) u today)]), st)"
    by blast
  with eq same show ?thesis by blast
qed

theorem day_report_balance_vs_get_balance_witness:
  "day_report_balance
     \<lparr>expenses = [], balances =
        [\<lparr>balance_id = 1, balance_user_id = 7, balance_date = 10, balance_balance = 1500\<rparr>],
      expense_seq = 1, balance_seq = 2\<rparr> 7 13 = 7500"
  using day_report_balance_vs_get_balance
          [of "\<lparr>expenses = [], balances =
                 [\<lparr>balance_id = 1, balance_user_id = 7, balance_date = 10,
                   balance_balance = 1500\<rparr>],
                 expense_seq = 1, balance_seq = 2\<rparr>" 7 13]
  by (simp add: balances_on_def expenses_on_def get_balance_def last_balance_of_def
        DAILY_LIMIT_def)

theorem day_report_balance_counterexample:
  "fst (get_balance
          \<lparr>expenses =
             [\<lparr>expense_id = 1, expense_user_id = 7, expense_amount = 100, expense_date = 10,
               expense_category = None\<rparr>],
           balances = [], expense_seq = 2, balance_seq = 1\<rparr> 7 10) = 2000 \<and>
   day_report_balance
          \<lparr>expenses =
             [\<lparr>expense_id = 1, expense_user_id = 7, expense_amount = 100, expense_date = 10,
               expense_category = None\<rparr>],
           balances = [], expense_seq = 2, balance_seq = 1\<rparr> 7 10 = 1900 \<and>
   fst (get_balance
          \<lparr>expenses = [], balances =
             [\<lparr>balance_id = 1, balance_user_id = 7, balance_date = 11, balance_balance = 2000\<rparr>],
           expense_seq = 1, balance_seq = 2\<rparr> 7 10) = 2000 \<and>
   day_report_balance
          \<lparr>expenses = [], balances =
             [\<lparr>balance_id = 1, balance_user_id = 7, balance_date = 11, balance_balance = 2000\<rparr>],
           expense_seq = 1, balance_seq = 2\<rparr> 7 10 = 0"
  by (simp add: get_balance_def day_report_balance_def balances_on_def last_balance_of_def
        DAILY_LIMIT_def Let_def)

lemma fold_update_None:
  "map_of (fold (\<lambda>b m. AList.update (f b) (g b) m) rows acc) d = None \<longleftrightarrow>
     map_of acc d = None \<and> d \<notin> f ` set rows"
  by (induction rows arbitrary: acc) (auto simp: update_conv')

lemma fold_update_Some:
  "map_of (fold (\<lambda>b m. AList.update (f b) (g b) m) rows acc) d = Some v \<Longrightarrow>
     map_of acc d = Some v \<or> (\<exists>b \<in> set rows. f b = d \<and> g b = v)"
proof (induction rows arbitrary: acc)
  case Nil
  then show ?case by simp
next
  case (Cons a rows)
  from Cons.prems have "map_of (fold (\<lambda>b m. AList.update (f b) (g b) m) rows
                          (AList.update (f a) (g a) acc)) d = Some v"
    by simp
  from Cons.IH [OF this] show ?case
    by (auto simp: update_conv' split: if_splits)
qed

lemma last_week_day_lines:
  "last (week_day_lines ds bs d) =
     (case map_of bs d of Some b \<Rightarrow> Day_balance b | None \<Rightarrow> Balance_not_found)"
  by (simp add: week_day_lines_def Let_def)

lemma day_balances_eq:
  "fst (snd (get_weekly_stats s u today)) =
     fold (\<lambda>b m. AList.update (balance_date b) (balance_balance b) m)
       (sort_key balance_date
          (filter (\<lambda>b. balance_user_id b = u \<and> today - 6 \<le> balance_date b) (balances s)))
       []"
  by (simp add: get_weekly_stats_def Let_def)

section \<open>The week report's total\<close>

lemma sum_list_partition:
  "sum_list (map f (filter P xs)) + sum_list (map f (filter (\<lambda>x. \<not> P x) xs)) =
     (sum_list (map f xs) :: real)"
  by (induction xs) auto

lemma group_sum_total: "sum_list (map snd (group_sum xs)) = sum_list (map snd xs)"
proof (induction xs rule: group_sum.induct)
  case 1
  then show ?case by simp
next
  case (2 k v xs)
  from sum_list_partition [of snd "\<lambda>p. fst p = k" xs] 2 show ?case by simp
qed

lemma group_sum_keys: "fst ` set (group_sum xs) = fst ` set xs"
proof (induction xs rule: group_sum.induct)
  case 1
  then show ?case by simp
next
  case (2 k v xs)
  then show ?case by (auto simp: image_iff)
qed

lemma group_sum_distinct: "distinct (map fst (group_sum xs))"
proof (induction xs rule: group_sum.induct)
  case 1
  then show ?case by simp
next
  case (2 k v xs)
  have "k \<notin> fst ` set (group_sum (filter (\<lambda>p. fst p \<noteq> k) xs))"
    unfolding group_sum_keys by auto
  with 2 show ?case by simp
qed

lemma sum_list_update:
  "sum_list (map (\<lambda>p. h (snd p)) (AList.update k v al)) =
     sum_list (map (\<lambda>p. h (snd p)) al) -
     (case map_of al k of None \<Rightarrow> 0 | Some v0 \<Rightarrow> h v0) + (h v :: real)"
  by (induction al) auto

lemma sum_list_upto_indicator:
  "sum_list (map (\<lambda>d. if x = d then (c :: real) else 0) [lo..hi]) =
     (if lo \<le> x \<and> x \<le> hi then c else 0)"
proof -
  have "sum_list (map (\<lambda>d. if x = d then c else 0) [lo..hi]) =
          sum (\<lambda>d. if x = d then c else 0) (set [lo..hi])"
    by (rule sum_list_distinct_conv_sum_set) simp
  also have "\<dots> = (if x \<in> {lo..hi} then c else 0)" by simp
  finally show ?thesis by simp
qed

lemma sum_list_by_day:
  "sum_list (map (\<lambda>d. sum_list (map f (filter (\<lambda>e. P e \<and> g e = d) xs))) [lo..hi]) =
     (sum_list (map f (filter (\<lambda>e. P e \<and> lo \<le> g e \<and> g e \<le> hi) xs)) :: real)"
proof (induction xs)
  case Nil
  then show ?case by simp
next
  case (Cons e xs)
  have "sum_list (map (\<lambda>d. sum_list (map f (filter (\<lambda>e. P e \<and> g e = d) (e # xs)))) [lo..hi]) =
        sum_list (map (\<lambda>d. (if g e = d then (if P e then f e else 0) else 0) +
                         sum_list (map f (filter (\<lambda>e. P e \<and> g e = d) xs))) [lo..hi])"
    by (rule arg_cong [where f = sum_list], rule map_cong) auto
  also have "\<dots> = sum_list (map (\<lambda>d. if g e = d then (if P e then f e else 0) else 0) [lo..hi]) +
        sum_list (map (\<lambda>d. sum_list (map f (filter (\<lambda>e. P e \<and> g e = d) xs))) [lo..hi])"
    by (rule sum_list_addf)
  also have "\<dots> = (if lo \<le> g e \<and> g e \<le> hi then (if P e then f e else 0) else 0) +
        sum_list (map f (filter (\<lambda>e. P e \<and> lo \<le> g e \<and> g e \<le> hi) xs))"
    by (simp only: sum_list_upto_indicator Cons.IH)
  also have "\<dots> = sum_list (map f (filter (\<lambda>e. P e \<and> lo \<le> g e \<and> g e \<le> hi) (e # xs)))"
    by simp
  finally show ?case .
qed

lemma stats_total_alt:
  "stats_total ds = sum_list (map (\<lambda>p. sum_list (map snd (snd p))) ds)"
  by (simp add: stats_total_def case_prod_unfold)

lemma sum_list_update_snd:
  "sum_list (map snd (AList.update k v al)) =
     sum_list (map snd al) - (case map_of al k of None \<Rightarrow> 0 | Some x \<Rightarrow> x) + (v :: real)"
  using sum_list_update [where h = "\<lambda>x. x", of k v al] by simp

lemma sum_list_update_cats:
  "sum_list (map (\<lambda>p. sum_list (map snd (snd p))) (AList.update k v al)) =
     sum_list (map (\<lambda>p. sum_list (map snd (snd p))) al) -
     (case map_of al k of None \<Rightarrow> 0 | Some c \<Rightarrow> sum_list (map snd c)) +
     (sum_list (map snd v) :: real)"
  using sum_list_update [where h = "\<lambda>c. sum_list (map snd c)", of k v al] by simp

lemma map_of_daily_stats_step:
  "map_of (daily_stats_step ((d, cat), a) ds) =
     (map_of ds)(d \<mapsto> AList.update (cat_or cat) a
                        (case map_of ds d of None \<Rightarrow> [] | Some c \<Rightarrow> c))"
  by (auto simp: daily_stats_step_def Let_def update_conv' split: option.splits)

lemma stats_total_step:
  "stats_total (daily_stats_step ((d, cat), a) ds) =
     stats_total ds + a -
     (case map_of (case map_of ds d of None \<Rightarrow> [] | Some c \<Rightarrow> c) (cat_or cat) of
        None \<Rightarrow> 0 | Some x \<Rightarrow> x)"
proof (cases "map_of ds d")
  case None
  then have "daily_stats_step ((d, cat), a) ds =
               AList.update d (AList.update (cat_or cat) a []) (AList.update d [] ds)"
    by (simp add: daily_stats_step_def Let_def update_conv')
  then show ?thesis
    using None by (simp add: stats_total_alt sum_list_update_cats update_conv')
next
  case (Some c)
  then have "daily_stats_step ((d, cat), a) ds = AList.update d (AList.update (cat_or cat) a c) ds"
    by (simp add: daily_stats_step_def Let_def)
  then show ?thesis
    using Some
    by (simp add: stats_total_alt sum_list_update_cats sum_list_update_snd)
qed

lemma stats_has_step:
  "stats_has (daily_stats_step ((d, cat), a) ds) d' l' \<longleftrightarrow>
     stats_has ds d' l' \<or> (d' = d \<and> l' = cat_or cat)"
  by (auto simp: stats_has_def map_of_daily_stats_step update_conv' split: option.splits)

lemma stats_total_step_new:
  "\<not> stats_has ds d (cat_or cat) \<Longrightarrow>
     stats_total (daily_stats_step ((d, cat), a) ds) = stats_total ds + a"
  by (auto simp: stats_total_step stats_has_def split: option.splits)

lemma stats_total_fold:
  "distinct (map (\<lambda>r. (fst (fst r), cat_or (snd (fst r)))) rows) \<Longrightarrow>
   (\<forall>r \<in> set rows. \<not> stats_has ds (fst (fst r)) (cat_or (snd (fst r)))) \<Longrightarrow>
   stats_total (fold daily_stats_step rows ds) = stats_total ds + sum_list (map snd rows)"
proof (induction rows arbitrary: ds)
  case Nil
  then show ?case by simp
next
  case (Cons r rows)
  obtain d cat a where r: "r = ((d, cat), a)" by (metis surj_pair)
  from Cons.prems(2) r have new: "\<not> stats_has ds d (cat_or cat)" by simp
  have dist: "distinct (map (\<lambda>r. (fst (fst r), cat_or (snd (fst r)))) rows)"
    using Cons.prems(1) by simp
  have rest: "\<forall>r' \<in> set rows.
                \<not> stats_has (daily_stats_step r ds) (fst (fst r')) (cat_or (snd (fst r')))"
  proof
    fix r' assume m: "r' \<in> set rows"
    with Cons.prems(2) have "\<not> stats_has ds (fst (fst r')) (cat_or (snd (fst r')))" by simp
    moreover from m Cons.prems(1) r
    have "(fst (fst r'), cat_or (snd (fst r'))) \<noteq> (d, cat_or cat)" by force
    ultimately show "\<not> stats_has (daily_stats_step r ds) (fst (fst r')) (cat_or (snd (fst r')))"
      unfolding r stats_has_step by simp
  qed
  from Cons.IH [OF dist rest] stats_total_step_new [OF new, of a] r show ?case by simp
qed

lemma sum_list_sort_key:
  "sum_list (map f (sort_key g xs)) = (sum_list (map f xs) :: real)"
proof -
  have "mset (map f (sort_key g xs)) = mset (map f xs)" by simp
  then have "sum_mset (mset (map f (sort_key g xs))) = sum_mset (mset (map f xs))"
    by (rule arg_cong)
  then show ?thesis by (simp only: sum_mset_sum_list)
qed

lemma distinct_map_sort_key:
  "distinct (map f (sort_key g xs)) \<longleftrightarrow> distinct (map f xs)"
  by (rule mset_eq_imp_distinct_iff) simp

lemma weekly_total_eq:
  "snd (snd (get_weekly_stats s u today)) =
     stats_total (fold daily_stats_step
       (sort_key (\<lambda>row. fst (fst row))
          (group_sum
             (map (\<lambda>e. ((expense_date e, expense_category e), expense_amount e))
                (filter (\<lambda>e. expense_user_id e = u \<and> today - 6 \<le> expense_date e)
                   (expenses s))))) [])"
  by (simp add: get_weekly_stats_def Let_def stats_total_def)

lemma weekly_total_sum:
  assumes "labels_unambiguous s u (today - 6)"
  shows "snd (snd (get_weekly_stats s u today)) =
           sum_list (map expense_amount
             (filter (\<lambda>e. expense_user_id e = u \<and> today - 6 \<le> expense_date e) (expenses s)))"
proof -
  let ?es = "filter (\<lambda>e. expense_user_id e = u \<and> today - 6 \<le> expense_date e) (expenses s)"
  let ?pairs = "map (\<lambda>e. ((expense_date e, expense_category e), expense_amount e)) ?es"
  let ?rows = "sort_key (\<lambda>row. fst (fst row)) (group_sum ?pairs)"
  let ?key = "\<lambda>k :: int \<times> pystr option. (fst k, cat_or (snd k))"
  have keys: "set (map fst ?rows) = (\<lambda>e. (expense_date e, expense_category e)) ` set ?es"
  proof -
    have "set (map fst ?rows) = fst ` set (group_sum ?pairs)" by simp
    also have "\<dots> = fst ` set ?pairs" by (rule group_sum_keys)
    also have "\<dots> = (\<lambda>e. (expense_date e, expense_category e)) ` set ?es"
      by (simp add: image_image)
    finally show ?thesis .
  qed
  have inj: "inj_on ?key (set (map fst ?rows))"
    unfolding keys
  proof (rule inj_onI)
    fix x y
    assume x: "x \<in> (\<lambda>e. (expense_date e, expense_category e)) ` set ?es"
      and y: "y \<in> (\<lambda>e. (expense_date e, expense_category e)) ` set ?es"
      and eq: "?key x = ?key y"
    from x obtain e1 where e1: "e1 \<in> set (expenses s)" "expense_user_id e1 = u"
      "today - 6 \<le> expense_date e1" "x = (expense_date e1, expense_category e1)" by auto
    from y obtain e2 where e2: "e2 \<in> set (expenses s)" "expense_user_id e2 = u"
      "y = (expense_date e2, expense_category e2)" by auto
    from eq e1(4) e2(3) have d: "expense_date e1 = expense_date e2"
      and l: "cat_or (expense_category e1) = cat_or (expense_category e2)" by simp_all
    from assms e1(1) e2(1) e1(2) e2(2) e1(3) d l
    have "expense_category e1 = expense_category e2"
      unfolding labels_unambiguous_def by blast
    with d e1(4) e2(3) show "x = y" by simp
  qed
  have "distinct (map fst ?rows)"
    unfolding distinct_map_sort_key by (rule group_sum_distinct)
  with inj have "distinct (map ?key (map fst ?rows))"
    by (simp only: distinct_map)
  then have dist: "distinct (map (\<lambda>r. (fst (fst r), cat_or (snd (fst r)))) ?rows)"
    by (simp add: comp_def)
  have none: "\<forall>r \<in> set ?rows. \<not> stats_has [] (fst (fst r)) (cat_or (snd (fst r)))"
    by (simp add: stats_has_def)
  have "snd (snd (get_weekly_stats s u today)) = stats_total (fold daily_stats_step ?rows [])"
    by (rule weekly_total_eq)
  also have "\<dots> = stats_total [] + sum_list (map snd ?rows)"
    by (rule stats_total_fold [OF dist none])
  also have "\<dots> = sum_list (map snd ?rows)" by (simp add: stats_total_def)
  also have "\<dots> = sum_list (map snd (group_sum ?pairs))" by (rule sum_list_sort_key)
  also have "\<dots> = sum_list (map snd ?pairs)" by (rule group_sum_total)
  also have "\<dots> = sum_list (map expense_amount ?es)" by (simp add: comp_def)
  finally show ?thesis .
qed

lemma filter_day:
  "filter (\<lambda>e. expense_user_id e = u \<and> d \<le> expense_date e)
     (filter (\<lambda>e. expense_date e \<le> d) xs) =
   filter (\<lambda>e. expense_user_id e = u \<and> expense_date e = d) xs"
  by (induction xs) auto

lemma day_total_as_of:
  "sum_list (map snd (get_stats (store_as_of s d) u (py ''day'') d)) =
     sum_list (map expense_amount
       (filter (\<lambda>e. expense_user_id e = u \<and> expense_date e = d) (expenses s)))"
proof -
  have "sum_list (map snd (get_stats (store_as_of s d) u (py ''day'') d)) =
          sum_list (map expense_amount
            (filter (\<lambda>e. expense_user_id e = u \<and> d \<le> expense_date e)
               (filter (\<lambda>e. expense_date e \<le> d) (expenses s))))"
    by (simp add: get_stats_def store_as_of_def group_sum_total comp_def del: filter_filter)
  then show ?thesis by (simp only: filter_day)
qed

text \<open>
  C4, as the code has it. \<open>get_stats\<close> bounds the dates from below only, so the day
  totals are taken on the store as it stood at the end of each day. Let no expense record
  of the user be dated after \<open>today\<close>, and let no two of the user's records from
  \<open>today - 6\<close> on, of one day and of different categories, share a label of the week
  report. Then the grand total of \<open>get_weekly_stats\<close> is the sum, over the seven days from
  \<open>today - 6\<close> to \<open>today\<close>, of the summed category totals of \<open>get_stats\<close> for the period
  "day", evaluated with that day as today on the store as of that day.
\<close>

theorem weekly_total_is_sum_of_day_totals:
  assumes "\<forall>e \<in> set (expenses s). expense_user_id e = u \<longrightarrow> expense_date e \<le> today"
    and "labels_unambiguous s u (today - 6)"
  shows "snd (snd (get_weekly_stats s u today)) =
           sum_list (map (\<lambda>d. sum_list (map snd (get_stats (store_as_of s d) u (py ''day'') d)))
                       [today - 6..today])"
proof -
  have "filter (\<lambda>e. expense_user_id e = u \<and> today - 6 \<le> expense_date e) (expenses s) =
        filter (\<lambda>e. expense_user_id e = u \<and> today - 6 \<le> expense_date e \<and>
                     expense_date e \<le> today) (expenses s)"
    using assms(1) by (intro filter_cong) auto
  with weekly_total_sum [OF assms(2)]
  have "snd (snd (get_weekly_stats s u today)) =
          sum_list (map expense_amount
            (filter (\<lambda>e. expense_user_id e = u \<and> today - 6 \<le> expense_date e \<and>
                         expense_date e \<le> today) (expenses s)))"
    by simp
  also have "\<dots> =
      sum_list (map (\<lambda>d. sum_list (map expense_amount
                  (filter (\<lambda>e. expense_user_id e = u \<and> expense_date e = d) (expenses s))))
                [today - 6..today])"
    by (rule sum_list_by_day [symmetric])
  finally show ?thesis by (simp only: day_total_as_of)
qed

theorem weekly_total_is_sum_of_day_totals_witness:
  "snd (snd (get_weekly_stats
     \<lparr>expenses =
        [\<lparr>expense_id = 1, expense_user_id = 7, expense_amount = 100, expense_date = 10,
          expense_category = Some (py ''a'')\<rparr>,
         \<lparr>expense_id = 2, expense_user_id = 7, expense_amount = 50, expense_date = 12,
          expense_category = None\<rparr>],
      balances = [], expense_seq = 3, balance_seq = 1\<rparr> 7 12)) = 150"
  using weekly_total_is_sum_of_day_totals
          [of "\<lparr>expenses =
                 [\<lparr>expense_id = 1, expense_user_id = 7, expense_amount = 100, expense_date = 10,
                   expense_category = Some (py ''a'')\<rparr>,
                  \<lparr>expense_id = 2, expense_user_id = 7, expense_amount = 50, expense_date = 12,
                   expense_category = None\<rparr>],
                 balances = [], expense_seq = 3, balance_seq = 1\<rparr>" 7 12]
  by (simp add: labels_unambiguous_def get_stats_def store_as_of_def)

theorem weekly_total_counterexample:
  "snd (snd (get_weekly_stats
     \<lparr>expenses =
        [\<lparr>expense_id = 1, expense_user_id = 7, expense_amount = 100, expense_date = 10,
          expense_category = Some (py ''a'')\<rparr>],
      balances = [], expense_seq = 2, balance_seq = 1\<rparr> 7 10)) = 100 \<and>
   sum_list (map (\<lambda>d. sum_list (map snd (get_stats
     \<lparr>expenses =
        [\<lparr>expense_id = 1, expense_user_id = 7, expense_amount = 100, expense_date = 10,
          expense_category = Some (py ''a'')\<rparr>],
      balances = [], expense_seq = 2, balance_seq = 1\<rparr> 7 (py ''day'') d))) [10 - 6..10]) = 700 \<and>
   snd (snd (get_weekly_stats
     \<lparr>expenses =
        [\<lparr>expense_id = 1, expense_user_id = 7, expense_amount = 10, expense_date = 10,
          expense_category = None\<rparr>,
         \<lparr>expense_id = 2, expense_user_id = 7, expense_amount = 20, expense_date = 10,
          expense_category = Some []\<rparr>],
      balances = [], expense_seq = 3, balance_seq = 1\<rparr> 7 10)) = 20 \<and>
   sum_list (map (\<lambda>d. sum_list (map snd (get_stats (store_as_of
     \<lparr>expenses =
        [\<lparr>expense_id = 1, expense_user_id = 7, expense_amount = 10, expense_date = 10,
          expense_category = None\<rparr>,
         \<lparr>expense_id = 2, expense_user_id = 7, expense_amount = 20, expense_date = 10,
          expense_category = Some []\<rparr>],
      balances = [], expense_seq = 3, balance_seq = 1\<rparr> d) 7 (py ''day'') d))) [10 - 6..10]) = 30"
  by (simp add: get_weekly_stats_def daily_stats_step_def get_stats_def store_as_of_def
        cat_or_def Let_def)

section \<open>Budget adjustment\<close>




section \<open>Negative amounts\<close>

















section \<open>The week report\<close>

lemma fold_daily_stats_step_None:
  "map_of (fold daily_stats_step rows acc) d = None \<longleftrightarrow>
     map_of acc d = None \<and> d \<notin> (\<lambda>row. fst (fst row)) ` set rows"
proof (induction rows arbitrary: acc)
  case Nil
  then show ?case by simp
next
  case (Cons r rows)
  obtain d' cat a where r: "r = ((d', cat), a)" by (metis surj_pair)
  show ?case
    unfolding r using Cons.IH [of "daily_stats_step ((d', cat), a) acc"]
    by (auto simp: map_of_daily_stats_step)
qed

lemma daily_stats_eq:
  "fst (get_weekly_stats s u today) =
     fold daily_stats_step
       (sort_key (\<lambda>row. fst (fst row))
          (group_sum
             (map (\<lambda>e. ((expense_date e, expense_category e), expense_amount e))
                (filter (\<lambda>e. expense_user_id e = u \<and> today - 6 \<le> expense_date e)
                   (expenses s))))) []"
  by (simp add: get_weekly_stats_def Let_def)

lemma daily_stats_None:
  "map_of (fst (get_weekly_stats s u today)) d = None \<longleftrightarrow>
     \<not> (today - 6 \<le> d \<and> expenses_on s u d \<noteq> [])"
proof -
  let ?es = "filter (\<lambda>e. expense_user_id e = u \<and> today - 6 \<le> expense_date e) (expenses s)"
  let ?pairs = "map (\<lambda>e. ((expense_date e, expense_category e), expense_amount e)) ?es"
  have "(\<lambda>row. fst (fst row)) ` set (sort_key (\<lambda>row. fst (fst row)) (group_sum ?pairs)) =
          fst ` (fst ` set (group_sum ?pairs))"
    by (simp add: image_image)
  also have "\<dots> = fst ` (fst ` set ?pairs)" by (simp only: group_sum_keys)
  also have "\<dots> = expense_date ` set ?es" by (simp add: image_image)
  finally have keys:
    "(\<lambda>row. fst (fst row)) ` set (sort_key (\<lambda>row. fst (fst row)) (group_sum ?pairs)) =
       expense_date ` set ?es" .
  have "d \<in> expense_date ` set ?es \<longleftrightarrow> today - 6 \<le> d \<and> expenses_on s u d \<noteq> []"
    by (auto simp: expenses_on_def filter_empty_conv)
  with keys show ?thesis
    by (simp only: daily_stats_eq fold_daily_stats_step_None) simp
qed

lemma day_balances_None:
  "map_of (fst (snd (get_weekly_stats s u today))) d = None \<longleftrightarrow>
     \<not> (today - 6 \<le> d \<and> balances_on s u d \<noteq> [])"
  by (auto simp: day_balances_eq fold_update_None balances_on_def filter_empty_conv)

lemma day_balances_Some:
  assumes "map_of (fst (snd (get_weekly_stats s u today))) d = Some v"
  shows "\<exists>b \<in> set (balances_on s u d). balance_balance b = v"
proof -
  from assms have "map_of (fold (\<lambda>b m. AList.update (balance_date b) (balance_balance b) m)
       (sort_key balance_date
          (filter (\<lambda>b. balance_user_id b = u \<and> today - 6 \<le> balance_date b) (balances s)))
       []) d = Some v"
    by (simp only: day_balances_eq)
  from fold_update_Some [OF this] show ?thesis by (auto simp: balances_on_def)
qed

lemma alist_empty_iff: "al = [] \<longleftrightarrow> (\<forall>k. map_of al k = None)"
proof (cases al)
  case Nil
  then show ?thesis by simp
next
  case (Cons p ps)
  then have "map_of al (fst p) = Some (snd p)" by (cases p) simp
  with Cons show ?thesis by auto
qed

lemma keys_map_of: "set (map fst al) = {k. map_of al k \<noteq> None}"
  by (auto simp: map_of_eq_None_iff)

lemma hd_week_day_lines: "hd (week_day_lines ds bs d) = Day_header d"
  by (simp add: week_day_lines_def Let_def)

lemma week_empty_iff:
  "fst (get_weekly_stats s u today) = [] \<and> fst (snd (get_weekly_stats s u today)) = [] \<longleftrightarrow>
     (\<forall>d. today - 6 \<le> d \<longrightarrow> expenses_on s u d = [] \<and> balances_on s u d = [])"
  unfolding alist_empty_iff daily_stats_None day_balances_None by blast

lemma stats_callback_week:
  "stats_callback st u (py ''stats_week'') today =
     (if fst (get_weekly_stats (db st) u today) = [] \<and>
         fst (snd (get_weekly_stats (db st) u today)) = []
      then Inr (Week_empty, st)
      else Inr (Report
                  ([Week_header] @
                   concat (map (week_day_lines (fst (get_weekly_stats (db st) u today))
                                  (fst (snd (get_weekly_stats (db st) u today))))
                             (sort (remdups
                                (map fst (fst (get_weekly_stats (db st) u today)) @
                                 map fst (fst (snd (get_weekly_stats (db st) u today))))))) @
                   [Week_spent (snd (snd (get_weekly_stats (db st) u today)))]),
                st))"
  by (simp add: stats_callback_def second_piece_stats_week Let_def split: prod.splits)

text \<open>
  C8, as the code has it. The week report reads the snapshot rows and resolves nothing.
  It answers "nothing found" exactly when the user has neither an expense record nor a
  snapshot from \<open>today - 6\<close> on; otherwise it lists, in order, exactly the days from
  \<open>today - 6\<close> on that have an expense record or a snapshot of the user, each with the
  lines of \<open>week_day_lines\<close>, and the grand total. The lines of a day begin with the day
  and end with its balance: the balance of a stored snapshot of the user for that day, or
  "balance not found" when the store has none. A day with neither an expense record nor
  a snapshot is not listed. The handlers' state, and the store in it, is returned as it
  was.
\<close>

theorem week_report_reads_snapshots:
  "stats_callback st u (py ''stats_week'') today =
     (if \<forall>d. today - 6 \<le> d \<longrightarrow> expenses_on (db st) u d = [] \<and> balances_on (db st) u d = []
      then Inr (Week_empty, st)
      else Inr (Report
                  ([Week_header] @
                   concat (map (week_day_lines (fst (get_weekly_stats (db st) u today))
                                  (fst (snd (get_weekly_stats (db st) u today))))
                             (sort (remdups
                                (map fst (fst (get_weekly_stats (db st) u today)) @
                                 map fst (fst (snd (get_weekly_stats (db st) u today))))))) @
                   [Week_spent (snd (snd (get_weekly_stats (db st) u today)))]),
                st)) \<and>
   set (sort (remdups
          (map fst (fst (get_weekly_stats (db st) u today)) @
           map fst (fst (snd (get_weekly_stats (db st) u today)))))) =
     {d. today - 6 \<le> d \<and> (expenses_on (db st) u d \<noteq> [] \<or> balances_on (db st) u d \<noteq> [])} \<and>
   hd (week_day_lines (fst (get_weekly_stats (db st) u today))
         (fst (snd (get_weekly_stats (db st) u today))) d) = Day_header d \<and>
   (today - 6 \<le> d \<and> balances_on (db st) u d \<noteq> [] \<longrightarrow>
      (\<exists>b \<in> set (balances_on (db st) u d).
         map_of (fst (snd (get_weekly_stats (db st) u today))) d = Some (balance_balance b) \<and>
         last (week_day_lines (fst (get_weekly_stats (db st) u today))
                 (fst (snd (get_weekly_stats (db st) u today))) d) =
           Day_balance (balance_balance b))) \<and>
   (balances_on (db st) u d = [] \<longrightarrow>
      map_of (fst (snd (get_weekly_stats (db st) u today))) d = None \<and>
      last (week_day_lines (fst (get_weekly_stats (db st) u today))
              (fst (snd (get_weekly_stats (db st) u today))) d) = Balance_not_found)"
proof (intro conjI impI)
  show "stats_callback st u (py ''stats_week'') today =
     (if \<forall>d. today - 6 \<le> d \<longrightarrow> expenses_on (db st) u d = [] \<and> balances_on (db st) u d = []
      then Inr (Week_empty, st)
      else Inr (Report
                  ([Week_header] @
                   concat (map (week_day_lines (fst (get_weekly_stats (db st) u today))
                                  (fst (snd (get_weekly_stats (db st) u today))))
                             (sort (remdups
                                (map fst (fst (get_weekly_stats (db st) u today)) @
                                 map fst (fst (snd (get_weekly_stats (db st) u today))))))) @
                   [Week_spent (snd (snd (get_weekly_stats (db st) u today)))]),
                st))"
    by (simp only: stats_callback_week week_empty_iff)
next
  show "set (sort (remdups
          (map fst (fst (get_weekly_stats (db st) u today)) @
           map fst (fst (snd (get_weekly_stats (db st) u today)))))) =
     {d. today - 6 \<le> d \<and> (expenses_on (db st) u d \<noteq> [] \<or> balances_on (db st) u d \<noteq> [])}"
  proof -
    have "set (sort (remdups
          (map fst (fst (get_weekly_stats (db st) u today)) @
           map fst (fst (snd (get_weekly_stats (db st) u today)))))) =
          set (map fst (fst (get_weekly_stats (db st) u today))) \<union>
          set (map fst (fst (snd (get_weekly_stats (db st) u today))))"
      by simp
    also have "\<dots> = {d. map_of (fst (get_weekly_stats (db st) u today)) d \<noteq> None} \<union>
                     {d. map_of (fst (snd (get_weekly_stats (db st) u today))) d \<noteq> None}"
      by (simp only: keys_map_of)
    also have "\<dots> = {d. today - 6 \<le> d \<and>
                        (expenses_on (db st) u d \<noteq> [] \<or> balances_on (db st) u d \<noteq> [])}"
      unfolding daily_stats_None day_balances_None by blast
    finally show ?thesis .
  qed
next
  show "hd (week_day_lines (fst (get_weekly_stats (db st) u today))
         (fst (snd (get_weekly_stats (db st) u today))) d) = Day_header d"
    by (rule hd_week_day_lines)
next
  assume h: "today - 6 \<le> d \<and> balances_on (db st) u d \<noteq> []"
  then have "map_of (fst (snd (get_weekly_stats (db st) u today))) d \<noteq> None"
    by (simp add: day_balances_None)
  then obtain v where v: "map_of (fst (snd (get_weekly_stats (db st) u today))) d = Some v"
    by blast
  from day_balances_Some [OF v] obtain b
    where b: "b \<in> set (balances_on (db st) u d)" "balance_balance b = v" by blast
  from v b(2) have "last (week_day_lines (fst (get_weekly_stats (db st) u today))
                 (fst (snd (get_weekly_stats (db st) u today))) d) =
           Day_balance (balance_balance b)"
    by (simp add: last_week_day_lines)
  with v b show "\<exists>b \<in> set (balances_on (db st) u d).
         map_of (fst (snd (get_weekly_stats (db st) u today))) d = Some (balance_balance b) \<and>
         last (week_day_lines (fst (get_weekly_stats (db st) u today))
                 (fst (snd (get_weekly_stats (db st) u today))) d) =
           Day_balance (balance_balance b)"
    by blast
next
  assume "balances_on (db st) u d = []"
  then show n: "map_of (fst (snd (get_weekly_stats (db st) u today))) d = None"
    by (simp add: day_balances_None)
  then show "last (week_day_lines (fst (get_weekly_stats (db st) u today))
              (fst (snd (get_weekly_stats (db st) u today))) d) = Balance_not_found"
    by (simp add: last_week_day_lines)
qed

theorem week_report_reads_snapshots_witness:
  "stats_callback
     \<lparr>db = \<lparr>expenses =
              [\<lparr>expense_id = 1, expense_user_id = 7, expense_amount = 50, expense_date = 12,
                expense_category = Some (py ''a'')\<rparr>],
            balances =
              [\<lparr>balance_id = 1, balance_user_id = 7, balance_date = 10, balance_balance = 1500\<rparr>],
            expense_seq = 2, balance_seq = 2\<rparr>,
      pending_expenses = Map.empty, awaiting_budget_add = {}\<rparr> 7 (py ''stats_week'') 13 =
   Inr (Report
          [Week_header,
           Day_header 10, No_expenses, Day_spent 0, Day_balance 1500,
           Day_header 12, Category_line (py ''a'') 50, Day_spent 50, Balance_not_found,
           Week_spent 50],
        \<lparr>db = \<lparr>expenses =
              [\<lparr>expense_id = 1, expense_user_id = 7, expense_amount = 50, expense_date = 12,
                expense_category = Some (py ''a'')\<rparr>],
            balances =
              [\<lparr>balance_id = 1, balance_user_id = 7, balance_date = 10, balance_balance = 1500\<rparr>],
            expense_seq = 2, balance_seq = 2\<rparr>,
      pending_expenses = Map.empty, awaiting_budget_add = {}\<rparr>)"
proof -
  let ?st = "\<lparr>db = \<lparr>expenses =
              [\<lparr>expense_id = 1, expense_user_id = 7, expense_amount = 50, expense_date = 12,
                expense_category = Some (py ''a'')\<rparr>],
            balances =
              [\<lparr>balance_id = 1, balance_user_id = 7, balance_date = 10, balance_balance = 1500\<rparr>],
            expense_seq = 2, balance_seq = 2\<rparr>,
      pending_expenses = Map.empty, awaiting_budget_add = {}\<rparr>"
  have ne: "\<not> (\<forall>d. 13 - 6 \<le> d \<longrightarrow> expenses_on (db ?st) 7 d = [] \<and> balances_on (db ?st) 7 d = [])"
    by (auto simp: expenses_on_def balances_on_def intro: exI [of _ 10])
  have w: "get_weekly_stats (db ?st) 7 13 =
             ([(12, [(py ''a'', 50)])], [(10, 1500)], 50)"
    by (simp add: get_weekly_stats_def daily_stats_step_def cat_or_def py_def Let_def)
  from week_report_reads_snapshots [of ?st 7 13 12]
       week_report_reads_snapshots [of ?st 7 13 10] ne
  show ?thesis
    by (simp only: w if_False fst_conv snd_conv)
       (simp add: week_day_lines_def Let_def balances_on_def py_def)
qed

theorem week_report_counterexample:
  "stats_callback
     \<lparr>db = \<lparr>expenses = [], balances =
              [\<lparr>balance_id = 1, balance_user_id = 7, balance_date = 10, balance_balance = 1500\<rparr>],
            expense_seq = 1, balance_seq = 2\<rparr>,
      pending_expenses = Map.empty, awaiting_budget_add = {}\<rparr> 7 (py ''stats_week'') 13 =
   Inr (Report [Week_header, Day_header 10, No_expenses, Day_spent 0, Day_balance 1500,
                Week_spent 0],
        \<lparr>db = \<lparr>expenses = [], balances =
              [\<lparr>balance_id = 1, balance_user_id = 7, balance_date = 10, balance_balance = 1500\<rparr>],
            expense_seq = 1, balance_seq = 2\<rparr>,
      pending_expenses = Map.empty, awaiting_budget_add = {}\<rparr>) \<and>
   balances_on
     \<lparr>expenses = [], balances =
        [\<lparr>balance_id = 1, balance_user_id = 7, balance_date = 10, balance_balance = 1500\<rparr>],
      expense_seq = 1, balance_seq = 2\<rparr> 7 12 = []"
  by (simp add: stats_callback_def second_piece_stats_week get_weekly_stats_def
        week_day_lines_def balances_on_def Let_def)

end
